theory Spec2Isabelle
  imports Complex_Main
begin

section \<open>The client poller (services/api.ts)\<close>

text \<open>
  The status record returned by the job endpoint, field for field as the interface
  \<open>JobStatusResponse\<close> declares it. \<open>state\<close> is kept a string: the TypeScript union
  is erased at run time and the poller's last branch handles every other value. An
  optional field is an \<open>option\<close>; \<open>None\<close> stands for both \<open>undefined\<close> and \<open>null\<close>.
\<close>

record progress_counts =
  current :: int
  total :: int

record ('p, 'r) JobStatusResponse =
  job_id :: string
  state :: string
  status :: string
  progress :: "progress_counts option"
  partial_results :: "'p option"
  result :: "'r option"
  error :: "string option"

text \<open>A JavaScript \<open>Error\<close> object, identified by its message.\<close>

datatype js_error = Error string

text \<open>
  What one \<open>fetch\<close> of the status URL can do: reject (network failure), or deliver a
  response with its \<open>ok\<close> flag and \<open>statusText\<close>, whose \<open>json()\<close> either throws or
  gives a record.
\<close>

datatype ('p, 'r) fetch_outcome =
  Fetch_rejects js_error
| Http_response bool string "js_error + ('p, 'r) JobStatusResponse"

definition getJobStatus :: "('p, 'r) fetch_outcome \<Rightarrow> js_error + ('p, 'r) JobStatusResponse" where
  "getJobStatus f =
     (case f of
        Fetch_rejects e \<Rightarrow> Inl e
      | Http_response ok statusText body \<Rightarrow>
          if \<not> ok then Inl (Error (''Failed to get job status: '' @ statusText))
          else body)"

text \<open>The object handed to the progress callback.\<close>

record 'p progress_update =
  cb_current :: int
  cb_total :: int
  cb_status :: string
  partialResults :: "'p option"

text \<open>
  The callback is code of the caller running inside the poller's \<open>try\<close> block: it either
  returns (\<open>None\<close>) or throws (\<open>Some e\<close>). The parameter is optional in the source.
\<close>

type_synonym 'p onProgress = "'p progress_update \<Rightarrow> js_error option"

text \<open>
  What the poller does that the outside can observe, in order: it issues a status request,
  calls the callback, arms a timer for the next \<open>poll\<close>, or settles its promise.
\<close>

datatype ('p, 'r) poll_event =
  Get_status
| On_progress "'p progress_update"
| Set_timeout nat
| Resolve "'r option"
| Reject js_error

text \<open>The JavaScript expression \<open>s || d\<close> on an optional string.\<close>

definition or_else :: "string option \<Rightarrow> string \<Rightarrow> string" where
  "or_else s d = (case s of None \<Rightarrow> d | Some v \<Rightarrow> if v = [] then d else v)"

text \<open>
  The body of \<open>poll\<close> after \<open>await this.getJobStatus(jobId)\<close>: the \<open>try\<close> block with its
  four branches, and the \<open>catch\<close> that rejects with whatever was thrown.
\<close>

definition poll_body ::
  "'p onProgress option \<Rightarrow> nat \<Rightarrow> js_error + ('p, 'r) JobStatusResponse \<Rightarrow> ('p, 'r) poll_event list" where
  "poll_body onProgress pollInterval got =
     (case got of
        Inl e \<Rightarrow> [Reject e]
      | Inr st \<Rightarrow>
          if state st = ''PROGRESS'' \<or> state st = ''STARTED'' then
            (case onProgress of
               None \<Rightarrow> [Set_timeout pollInterval]
             | Some cb \<Rightarrow>
                 (case progress st of
                    None \<Rightarrow> [Set_timeout pollInterval]
                  | Some pr \<Rightarrow>
                      let upd = \<lparr>cb_current = current pr, cb_total = total pr,
                                 cb_status = status st, partialResults = partial_results st\<rparr>
                      in (case cb upd of
                            Some e \<Rightarrow> [On_progress upd, Reject e]
                          | None \<Rightarrow> [On_progress upd, Set_timeout pollInterval])))
          else if state st = ''SUCCESS'' then [Resolve (result st)]
          else if state st = ''FAILURE'' then [Reject (Error (or_else (error st) ''Job failed''))]
          else [Set_timeout pollInterval])"

fun is_timeout :: "('p, 'r) poll_event \<Rightarrow> bool" where
  "is_timeout (Set_timeout n) = True"
| "is_timeout e = False"

fun is_settle :: "('p, 'r) poll_event \<Rightarrow> bool" where
  "is_settle (Resolve r) = True"
| "is_settle (Reject e) = True"
| "is_settle e = False"


text \<open>
  \<open>poll\<close> itself. The list holds what the network answers to the successive status
  requests. Each call issues one request; when the answer makes the body arm the timer,
  the timer later calls \<open>poll\<close> again, otherwise nothing is left that could call it. When the
  answers run out the last request stays in flight.
\<close>

fun poll ::
  "'p onProgress option \<Rightarrow> nat \<Rightarrow> ('p, 'r) fetch_outcome list \<Rightarrow> ('p, 'r) poll_event list" where
  "poll onProgress pollInterval [] = [Get_status]"
| "poll onProgress pollInterval (f # fs) =
     (let evs = poll_body onProgress pollInterval (getJobStatus f)
      in Get_status # evs @
         (if list_ex is_timeout evs then poll onProgress pollInterval fs else []))"

text \<open>\<open>pollJobUntilComplete\<close>: the interval defaults to 2000 ms, and polling starts at once.\<close>

definition pollJobUntilComplete ::
  "'p onProgress option \<Rightarrow> nat option \<Rightarrow> ('p, 'r) fetch_outcome list \<Rightarrow> ('p, 'r) poll_event list" where
  "pollJobUntilComplete onProgress pollInterval fs =
     poll onProgress (case pollInterval of None \<Rightarrow> 2000 | Some n \<Rightarrow> n) fs"

text \<open>The poller is waiting for an answer: its last action was to issue a request.\<close>

definition in_flight :: "('p, 'r) poll_event list \<Rightarrow> bool" where
  "in_flight evs = (case rev evs of [] \<Rightarrow> False | e # es \<Rightarrow> e = Get_status)"



text \<open>A callback that returns normally whatever it is given.\<close>

definition quiet_callback :: "'p onProgress" where
  "quiet_callback u = None"

subsection \<open>The poller as the state machine of the specification\<close>

datatype 'r poller_state = Polling | Resolved "'r option" | Rejected js_error

text \<open>
  The specification's words, one branch per sentence: on \<open>STARTED\<close> or \<open>PROGRESS\<close> invoke
  the callback if progress data is present, schedule the next tick, remain in \<open>Polling\<close>;
  on \<open>SUCCESS\<close> go to \<open>Resolved\<close> with \<open>result\<close>; on \<open>FAILURE\<close> go to \<open>Rejected\<close> with
  \<open>error\<close>; on anything else schedule the next tick without invoking the callback.
\<close>

definition spec_poller_step ::
  "'p onProgress option \<Rightarrow> nat \<Rightarrow> ('p, 'r) JobStatusResponse
     \<Rightarrow> 'r poller_state \<times> ('p, 'r) poll_event list" where
  "spec_poller_step onProgress pollInterval st =
     (if state st = ''STARTED'' \<or> state st = ''PROGRESS'' then
        (case (onProgress, progress st) of
           (Some cb, Some pr) \<Rightarrow>
             (Polling,
              [On_progress \<lparr>cb_current = current pr, cb_total = total pr,
                            cb_status = status st, partialResults = partial_results st\<rparr>,
               Set_timeout pollInterval])
         | _ \<Rightarrow> (Polling, [Set_timeout pollInterval]))
      else if state st = ''SUCCESS'' then (Resolved (result st), [Resolve (result st)])
      else if state st = ''FAILURE'' then
        (Rejected (Error (case error st of None \<Rightarrow> [] | Some e \<Rightarrow> e)),
         [Reject (Error (case error st of None \<Rightarrow> [] | Some e \<Rightarrow> e))])
      else (Polling, [Set_timeout pollInterval]))"

fun spec_poller_run ::
  "'p onProgress option \<Rightarrow> nat \<Rightarrow> 'r poller_state \<Rightarrow> ('p, 'r) JobStatusResponse list
     \<Rightarrow> ('p, 'r) poll_event list" where
  "spec_poller_run cb iv Polling [] = [Get_status]"
| "spec_poller_run cb iv Polling (st # sts) =
     Get_status # snd (spec_poller_step cb iv st)
       @ spec_poller_run cb iv (fst (spec_poller_step cb iv st)) sts"
| "spec_poller_run cb iv (Resolved r) sts = []"
| "spec_poller_run cb iv (Rejected e) sts = []"

text \<open>
  The same machine with what the source adds to it: a status request that throws leads to
  \<open>Rejected\<close> with what was thrown; a callback that throws leads to \<open>Rejected\<close> with what
  it threw instead of a next tick; and the message of a \<open>FAILURE\<close> is the record's
  \<open>error\<close> when that is a non-empty string and \<open>Job failed\<close> otherwise.
\<close>

definition poller_step ::
  "'p onProgress option \<Rightarrow> nat \<Rightarrow> js_error + ('p, 'r) JobStatusResponse
     \<Rightarrow> 'r poller_state \<times> ('p, 'r) poll_event list" where
  "poller_step onProgress pollInterval got =
     (case got of
        Inl e \<Rightarrow> (Rejected e, [Reject e])
      | Inr st \<Rightarrow>
          if state st = ''STARTED'' \<or> state st = ''PROGRESS'' then
            (case (onProgress, progress st) of
               (Some cb, Some pr) \<Rightarrow>
                 (let upd = \<lparr>cb_current = current pr, cb_total = total pr,
                             cb_status = status st, partialResults = partial_results st\<rparr>
                  in case cb upd of
                       None \<Rightarrow> (Polling, [On_progress upd, Set_timeout pollInterval])
                     | Some e \<Rightarrow> (Rejected e, [On_progress upd, Reject e]))
             | _ \<Rightarrow> (Polling, [Set_timeout pollInterval]))
          else if state st = ''SUCCESS'' then (Resolved (result st), [Resolve (result st)])
          else if state st = ''FAILURE'' then
            (Rejected (Error (or_else (error st) ''Job failed'')),
             [Reject (Error (or_else (error st) ''Job failed''))])
          else (Polling, [Set_timeout pollInterval]))"

fun poller_run ::
  "'p onProgress option \<Rightarrow> nat \<Rightarrow> 'r poller_state
     \<Rightarrow> (js_error + ('p, 'r) JobStatusResponse) list \<Rightarrow> ('p, 'r) poll_event list" where
  "poller_run cb iv Polling [] = [Get_status]"
| "poller_run cb iv Polling (g # gs) =
     Get_status # snd (poller_step cb iv g) @ poller_run cb iv (fst (poller_step cb iv g)) gs"
| "poller_run cb iv (Resolved r) gs = []"
| "poller_run cb iv (Rejected e) gs = []"

text \<open>Concrete status records used in the examples.\<close>

definition pending_job :: "(string, string) JobStatusResponse" where
  "pending_job = \<lparr>job_id = ''j1'', state = ''PENDING'', status = ''queued'', progress = None,
     partial_results = None, result = None, error = None\<rparr>"

definition running_job :: "(string, string) JobStatusResponse" where
  "running_job = \<lparr>job_id = ''j1'', state = ''PROGRESS'', status = ''working'',
     progress = Some \<lparr>current = 1, total = 5\<rparr>,
     partial_results = Some ''partial'', result = None, error = None\<rparr>"

definition done_job :: "(string, string) JobStatusResponse" where
  "done_job = \<lparr>job_id = ''j1'', state = ''SUCCESS'', status = ''done'', progress = None,
     partial_results = None, result = Some ''final'', error = None\<rparr>"

definition failed_job :: "(string, string) JobStatusResponse" where
  "failed_job = \<lparr>job_id = ''j1'', state = ''FAILURE'', status = ''failed'', progress = None,
     partial_results = None, result = None, error = None\<rparr>"

definition delivered :: "('p, 'r) JobStatusResponse \<Rightarrow> ('p, 'r) fetch_outcome" where
  "delivered st = Http_response True ''OK'' (Inr st)"

section \<open>JavaScript values used by the client state\<close>

text \<open>
  An array of strings as JavaScript holds it at run time: an element can be a string, or
  \<open>undefined\<close> (a hole left by a write past the end, or \<open>null\<close> from JSON), which is
  \<open>None\<close>. Reading past the end gives \<open>undefined\<close>; writing past the end extends the array.
\<close>

type_synonym js_strings = "string option list"

definition truthy :: "string option \<Rightarrow> bool" where
  "truthy v = (case v of None \<Rightarrow> False | Some s \<Rightarrow> s \<noteq> [])"

text \<open>
  A property declared \<open>string | null\<close> as it is at run time: \<open>null\<close>, a string, or
  \<open>undefined\<close> when it was assigned from something that was not there. The three are
  kept apart because the source tests such properties with \<open>!== null\<close>.
\<close>

datatype js_url = Undefined | Null | Url string

text \<open>\<open>x || null\<close>, and an array element taken as it is.\<close>

definition url_or_null :: "string option \<Rightarrow> js_url" where
  "url_or_null v = (case v of None \<Rightarrow> Null | Some s \<Rightarrow> if s = [] then Null else Url s)"

definition to_url :: "string option \<Rightarrow> js_url" where
  "to_url v = (case v of None \<Rightarrow> Undefined | Some s \<Rightarrow> Url s)"

definition js_get :: "'a option list \<Rightarrow> nat \<Rightarrow> 'a option" where
  "js_get xs i = (if i < length xs then xs ! i else None)"

definition js_set :: "'a option list \<Rightarrow> nat \<Rightarrow> 'a \<Rightarrow> 'a option list" where
  "js_set xs i v =
     (if i < length xs then xs[i := Some v]
      else xs @ replicate (i - length xs) None @ [Some v])"

text \<open>\<open>xs[i]\<close> on an array of objects, as \<open>xs[i]?.field\<close> needs it.\<close>

definition nth_opt :: "'a list \<Rightarrow> nat \<Rightarrow> 'a option" where
  "nth_opt xs i = (if i < length xs then Some (xs ! i) else None)"

text \<open>\<open>xs.findIndex(p)\<close>, with \<open>None\<close> for \<open>-1\<close>.\<close>

fun findIndex :: "('a \<Rightarrow> bool) \<Rightarrow> 'a list \<Rightarrow> nat option" where
  "findIndex p [] = None"
| "findIndex p (x # xs) =
     (if p x then Some 0 else (case findIndex p xs of None \<Rightarrow> None | Some i \<Rightarrow> Some (Suc i)))"

text \<open>
  \<open>Array(n).fill('').map((_, idx) => xs[idx] || '')\<close>, the expression the component uses
  wherever it brings \<open>videos\<close> or \<open>sceneImages\<close> to a given length.
\<close>

definition adjusted_array :: "nat \<Rightarrow> js_strings \<Rightarrow> js_strings" where
  "adjusted_array n xs = map (\<lambda>idx. Some (or_else (js_get xs idx) [])) [0..<n]"

subsection \<open>\<open>JSON.stringify\<close> on the values the signature is built from\<close>

definition hex_digit :: "nat \<Rightarrow> char" where
  "hex_digit n = ''0123456789abcdef'' ! (n mod 16)"

definition json_escape :: "char \<Rightarrow> string" where
  "json_escape c =
     (if c = CHR 0x22 then [CHR 0x5C, CHR 0x22]
      else if c = CHR 0x5C then [CHR 0x5C, CHR 0x5C]
      else if c = CHR 0x08 then [CHR 0x5C, CHR ''b'']
      else if c = CHR 0x09 then [CHR 0x5C, CHR ''t'']
      else if c = CHR 0x0A then [CHR 0x5C, CHR ''n'']
      else if c = CHR 0x0C then [CHR 0x5C, CHR ''f'']
      else if c = CHR 0x0D then [CHR 0x5C, CHR ''r'']
      else if (of_char c :: nat) < 32 then
        [CHR 0x5C, CHR ''u'', CHR ''0'', CHR ''0'',
         hex_digit (of_char c div 16), hex_digit (of_char c)]
      else [c])"

definition json_string :: "string \<Rightarrow> string" where
  "json_string s = CHR 0x22 # concat (map json_escape s) @ [CHR 0x22]"

function show_nat :: "nat \<Rightarrow> string" where
  "show_nat n =
     (if n < 10 then [''0123456789'' ! n]
      else show_nat (n div 10) @ [''0123456789'' ! (n mod 10)])"
  by pat_completeness auto
termination
  by (relation "measure id") auto

declare show_nat.simps [simp del]

definition json_number :: "int \<Rightarrow> string" where
  "json_number i = (if i < 0 then CHR ''-'' # show_nat (nat (- i)) else show_nat (nat i))"

fun comma_separated :: "string list \<Rightarrow> string" where
  "comma_separated [] = []"
| "comma_separated [x] = x"
| "comma_separated (x # y # ys) = x @ '','' @ comma_separated (y # ys)"

definition json_string_array :: "string list \<Rightarrow> string" where
  "json_string_array xs = ''['' @ comma_separated (map json_string xs) @ '']''"

definition json_member :: "string \<Rightarrow> string \<Rightarrow> string" where
  "json_member k v = json_string k @ '':'' @ v"

text \<open>
  Readers for what the functions above write, used to show that different values are
  written differently: one escaped character off the front of a string, and a decimal
  number.
\<close>

definition hex_val :: "char \<Rightarrow> nat" where
  "hex_val c = (let n = of_char c in if n < 58 then n - 48 else n - 87)"

definition unescape1 :: "string \<Rightarrow> (char \<times> string) option" where
  "unescape1 s =
     (case s of
        [] \<Rightarrow> None
      | a # r \<Rightarrow>
          if a \<noteq> CHR 0x5C then Some (a, r)
          else (case r of
                  [] \<Rightarrow> None
                | b # r2 \<Rightarrow>
                    if b = CHR 0x22 then Some (CHR 0x22, r2)
                    else if b = CHR 0x5C then Some (CHR 0x5C, r2)
                    else if b = CHR ''b'' then Some (CHR 0x08, r2)
                    else if b = CHR ''t'' then Some (CHR 0x09, r2)
                    else if b = CHR ''n'' then Some (CHR 0x0A, r2)
                    else if b = CHR ''f'' then Some (CHR 0x0C, r2)
                    else if b = CHR ''r'' then Some (CHR 0x0D, r2)
                    else (case r2 of
                            z1 # z2 # h # l # r3 \<Rightarrow>
                              Some (char_of (16 * hex_val h + hex_val l), r3)
                          | _ \<Rightarrow> None)))"

fun comma_tail :: "string list \<Rightarrow> string" where
  "comma_tail [] = []"
| "comma_tail (x # xs) = CHR '','' # x @ comma_tail xs"

definition read_nat :: "string \<Rightarrow> nat" where
  "read_nat s = foldl (\<lambda>acc c. 10 * acc + (of_char c - 48)) 0 s"

definition read_int :: "string \<Rightarrow> int" where
  "read_int s =
     (case s of
        [] \<Rightarrow> 0
      | c # cs \<Rightarrow> if c = CHR ''-'' then - int (read_nat cs) else int (read_nat s))"

section \<open>The story document (context/StoryContext.tsx)\<close>

record SceneLine =
  scene_number :: int
  scene_type :: string
  script_text :: string
  narration_url :: "string option"
  narration_duration :: "real option"
  phonemes :: "string option"

record ImagePrompt =
  ip_scene_number :: int
  ip_prompt :: string
  ip_scene_type :: string
  characters_in_scene :: "string list option"

record VideoPrompt =
  vp_scene_number :: int
  vp_prompt :: string

record VisualBlueprint =
  locations :: "string list"
  objects :: "string list"

record SideCharacterImage =
  sc_name :: string
  sc_type :: string
  sc_image_url :: string

text \<open>
  The state held by \<open>StoryProvider\<close>, as far as the generation pipeline reads or writes it,
  with the three refs the scene-count watcher consults.
\<close>

record story_context =
  selectedStyle :: string
  selectedThemes :: "string list"
  customTheme :: string
  characterName :: string
  characterType :: string
  personality :: string
  characterDescription :: string
  characterImageUrl :: string
  characterPrompt :: string
  storyTitle :: string
  scenes :: "SceneLine list"
  sceneCount :: int
  imagePrompts :: "ImagePrompt list"
  videoPrompts :: "VideoPrompt list"
  visualBlueprint :: "VisualBlueprint option"
  sceneImages :: js_strings
  videos :: js_strings
  sideCharacterImages :: "SideCharacterImage list"
  storySignature :: string
  finalVideoUrl :: string
  isHydrated :: bool
  isLoadingProjectRef :: bool
  prevSceneCountRef :: int

definition clearGeneratedContent :: "story_context \<Rightarrow> story_context" where
  "clearGeneratedContent st =
     st\<lparr>storyTitle := [], scenes := [], imagePrompts := [], videoPrompts := [],
        visualBlueprint := None, sceneImages := [], videos := [],
        sideCharacterImages := [], storySignature := [], finalVideoUrl := []\<rparr>"

text \<open>
  The effect of \<open>StoryProvider\<close> that watches \<open>sceneCount\<close>: skipped before hydration and
  during a project load; otherwise it clears the generated content when the previous count
  is non-zero and differs, and records the count.
\<close>

definition sceneCount_watcher :: "story_context \<Rightarrow> story_context" where
  "sceneCount_watcher st =
     (if \<not> isHydrated st \<or> isLoadingProjectRef st then st
      else (if prevSceneCountRef st \<noteq> 0 \<and> prevSceneCountRef st \<noteq> sceneCount st
            then clearGeneratedContent st else st)
           \<lparr>prevSceneCountRef := sceneCount st\<rparr>)"

text \<open>\<open>setSceneCount(n)\<close> followed by the render whose effects see the new count.\<close>

definition setSceneCount :: "int \<Rightarrow> story_context \<Rightarrow> story_context" where
  "setSceneCount n st = sceneCount_watcher (st\<lparr>sceneCount := n\<rparr>)"

section \<open>The scene page (components/SceneGeneration.tsx)\<close>

datatype gen_status = Status_idle | Status_generating | Status_ready | Status_error

text \<open>The component's own \<open>Scene\<close>.\<close>

record Scene =
  scene_id :: string
  sceneNumber :: int
  sceneType :: string
  scene_text :: string
  imagePrompt :: string
  videoPrompt :: string
  narrationUrl :: js_url
  narrationStatus :: gen_status
  narrationDuration :: real
  narrationCurrentTime :: real
  imageUrl :: js_url
  imageStatus :: gen_status
  videoUrl :: js_url
  videoStatus :: gen_status
  isPlayingNarration :: bool
  charactersInScene :: "string list"

text \<open>
  The component: the story document it shares through the context, and its own state and
  refs. \<open>local_scenes\<close> is the component's \<open>scenes\<close> state, renamed because the story
  document has a \<open>scenes\<close> of its own.
\<close>

record component =
  story :: story_context
  local_scenes :: "Scene list"
  completedImagesCount :: nat
  completedNarrationsCount :: nat
  isGeneratingScript :: bool
  scriptGenerated :: bool
  narrationsGenerated :: bool
  isGeneratingImages :: bool
  areVideoPromptsReady :: bool
  hasGeneratedRef :: bool
  narrationsGeneratedRef :: bool
  imagesGeneratedRef :: bool
  sideCharacterImagesRef :: "SideCharacterImage list"
  imageGenerationProgress :: "(int \<times> int \<times> string) option"
  videoGenerationProgress :: "(int \<times> int \<times> string) option"

subsection \<open>The input signature and its effect\<close>

definition currentSignature :: "story_context \<Rightarrow> string" where
  "currentSignature st =
     ''{'' @ comma_separated
       [json_member ''characterName'' (json_string (characterName st)),
        json_member ''characterType'' (json_string (characterType st)),
        json_member ''personality'' (json_string (personality st)),
        json_member ''characterDescription'' (json_string (characterDescription st)),
        json_member ''characterPrompt'' (json_string (characterPrompt st)),
        json_member ''characterImageUrl'' (json_string (characterImageUrl st)),
        json_member ''selectedStyle'' (json_string (selectedStyle st)),
        json_member ''selectedThemes'' (json_string_array (selectedThemes st)),
        json_member ''customTheme'' (json_string (customTheme st)),
        json_member ''sceneCount'' (json_number (sceneCount st))] @ ''}''"

text \<open>
  The effect that compares the recorded signature with the current one. In the first
  branch the setters run in the source's order, so the signature \<open>clearGeneratedContent\<close>
  blanks is overwritten by the new one.
\<close>

definition signature_effect :: "component \<Rightarrow> component" where
  "signature_effect c =
     (let st = story c; cur = currentSignature st in
      if storySignature st \<noteq> [] \<and> storySignature st \<noteq> cur then
        c\<lparr>story := (clearGeneratedContent st)\<lparr>storySignature := cur\<rparr>,
          local_scenes := [], scriptGenerated := False, isGeneratingScript := True,
          completedImagesCount := 0, isGeneratingImages := False,
          hasGeneratedRef := False, imagesGeneratedRef := False\<rparr>
      else if storySignature st = [] then c\<lparr>story := st\<lparr>storySignature := cur\<rparr>\<rparr>
      else c)"

text \<open>The ten inputs the signature is computed from.\<close>

record signature_inputs =
  in_characterName :: string
  in_characterType :: string
  in_personality :: string
  in_characterDescription :: string
  in_characterPrompt :: string
  in_characterImageUrl :: string
  in_selectedStyle :: string
  in_selectedThemes :: "string list"
  in_customTheme :: string
  in_sceneCount :: int

definition inputs_of :: "story_context \<Rightarrow> signature_inputs" where
  "inputs_of st =
     \<lparr>in_characterName = characterName st, in_characterType = characterType st,
      in_personality = personality st, in_characterDescription = characterDescription st,
      in_characterPrompt = characterPrompt st, in_characterImageUrl = characterImageUrl st,
      in_selectedStyle = selectedStyle st, in_selectedThemes = selectedThemes st,
      in_customTheme = customTheme st, in_sceneCount = sceneCount st\<rparr>"

text \<open>Whether a run of the effect on \<open>c\<close> clears the generated content.\<close>

definition invalidation_fires :: "component \<Rightarrow> bool" where
  "invalidation_fires c =
     (storySignature (story c) \<noteq> [] \<and> storySignature (story c) \<noteq> currentSignature (story c))"

subsection \<open>Loading persisted scenes on mount, and storing a generated script\<close>

text \<open>
  One element of \<open>mappedScenes\<close>: the persisted scene at index \<open>idx\<close> turned into the
  component's \<open>Scene\<close>.
\<close>

text \<open>
  \<open>x || null\<close> where the result is only ever tested for being truthy, so that \<open>null\<close>
  and \<open>undefined\<close> need not be told apart.
\<close>

definition or_null :: "string option \<Rightarrow> string option" where
  "or_null v = (if truthy v then v else None)"

definition ready_if :: "string option \<Rightarrow> gen_status" where
  "ready_if v = (if truthy v then Status_ready else Status_idle)"

definition mapped_scene :: "story_context \<Rightarrow> nat \<Rightarrow> SceneLine \<Rightarrow> Scene" where
  "mapped_scene st idx scene =
     \<lparr>scene_id = show_nat (idx + 1),
      sceneNumber = scene_number scene,
      sceneType = scene_type scene,
      scene_text = script_text scene,
      imagePrompt = (case nth_opt (imagePrompts st) idx of None \<Rightarrow> [] | Some p \<Rightarrow> ip_prompt p),
      videoPrompt = (case nth_opt (videoPrompts st) idx of None \<Rightarrow> [] | Some p \<Rightarrow> vp_prompt p),
      narrationUrl = url_or_null (narration_url scene),
      narrationStatus = ready_if (narration_url scene),
      narrationDuration = (case narration_duration scene of None \<Rightarrow> 0 | Some d \<Rightarrow> d),
      narrationCurrentTime = 0,
      imageUrl = url_or_null (js_get (sceneImages st) idx),
      imageStatus = ready_if (js_get (sceneImages st) idx),
      videoUrl = url_or_null (js_get (videos st) idx),
      videoStatus = ready_if (js_get (videos st) idx),
      isPlayingNarration = False,
      charactersInScene =
        (case nth_opt (imagePrompts st) idx of
           None \<Rightarrow> []
         | Some p \<Rightarrow> (case characters_in_scene p of None \<Rightarrow> [] | Some cs \<Rightarrow> cs))\<rparr>"

text \<open>
  The effect keyed on \<open>story.scenes.length\<close>. With persisted scenes and nothing generated
  yet it loads them, brings \<open>videos\<close> and \<open>sceneImages\<close> to the length of \<open>scenes\<close>, sets
  the flags and returns; otherwise, with a character prompt, it starts \<open>generateScript\<close>.
  The second component says whether \<open>generateScript\<close> was called.
\<close>

definition script_mount_effect :: "component \<Rightarrow> component \<times> bool" where
  "script_mount_effect c =
     (let st = story c; n = length (scenes st) in
      if scenes st \<noteq> [] \<and> \<not> hasGeneratedRef c then
        (c\<lparr>local_scenes := map (\<lambda>(idx, scene). mapped_scene st idx scene) (enumerate 0 (scenes st)),
           sideCharacterImagesRef :=
             (if sideCharacterImages st \<noteq> [] then sideCharacterImages st
              else sideCharacterImagesRef c),
           scriptGenerated := True,
           isGeneratingScript := False,
           hasGeneratedRef := True,
           story := st\<lparr>videos := (if length (videos st) \<noteq> n then adjusted_array n (videos st)
                                   else videos st),
                        sceneImages := (if length (sceneImages st) \<noteq> n
                                        then adjusted_array n (sceneImages st)
                                        else sceneImages st)\<rparr>,
           narrationsGeneratedRef :=
             (if list_ex (\<lambda>s. truthy (narration_url s)) (scenes st) then True
              else narrationsGeneratedRef c),
           narrationsGenerated :=
             (if list_ex (\<lambda>s. truthy (narration_url s)) (scenes st) then True
              else narrationsGenerated c),
           completedNarrationsCount :=
             (if list_ex (\<lambda>s. truthy (narration_url s)) (scenes st)
              then length (filter (\<lambda>s. truthy (narration_url s)) (scenes st))
              else completedNarrationsCount c),
           imagesGeneratedRef :=
             (if list_ex truthy (sceneImages st) then True else imagesGeneratedRef c),
           areVideoPromptsReady :=
             (if videoPrompts st \<noteq> [] \<and> list_all (\<lambda>vp. vp_prompt vp \<noteq> []) (videoPrompts st)
              then True else areVideoPromptsReady c)\<rparr>,
         False)
      else if \<not> hasGeneratedRef c \<and> characterPrompt st \<noteq> [] then
        (c\<lparr>hasGeneratedRef := True\<rparr>, True)
      else (c, False))"

record script_response =
  story_title :: string
  response_scenes :: "SceneLine list"

definition initial_scene :: "nat \<Rightarrow> SceneLine \<Rightarrow> Scene" where
  "initial_scene idx scene =
     \<lparr>scene_id = show_nat (idx + 1),
      sceneNumber = scene_number scene,
      sceneType = scene_type scene,
      scene_text = script_text scene,
      imagePrompt = [],
      videoPrompt = [],
      narrationUrl = url_or_null (narration_url scene),
      narrationStatus = ready_if (narration_url scene),
      narrationDuration = (case narration_duration scene of None \<Rightarrow> 0 | Some d \<Rightarrow> d),
      narrationCurrentTime = 0,
      imageUrl = Null,
      imageStatus = Status_idle,
      videoUrl = Null,
      videoStatus = Status_idle,
      isPlayingNarration = False,
      charactersInScene = []\<rparr>"

text \<open>
  \<open>generateScript\<close> from the answer of the script service on. \<open>cl\<close> is the story document
  of the render in which \<open>generateScript\<close> was called: the function reads \<open>story.videos\<close>
  and \<open>story.sceneImages\<close> from that object, and writes with plain setters. A thrown
  request only ends the spinner.
\<close>

definition generateScript :: "story_context \<Rightarrow> js_error + script_response \<Rightarrow> component \<Rightarrow> component" where
  "generateScript cl answer c =
     (case answer of
        Inl e \<Rightarrow> c\<lparr>isGeneratingScript := False\<rparr>
      | Inr response \<Rightarrow>
          (let n = length (response_scenes response) in
           c\<lparr>story := (story c)
                \<lparr>storyTitle := story_title response,
                 scenes := response_scenes response,
                 videos := (if length (videos cl) \<noteq> n then adjusted_array n (videos cl)
                            else videos (story c)),
                 sceneImages := (if length (sceneImages cl) \<noteq> n
                                 then adjusted_array n (sceneImages cl)
                                 else sceneImages (story c))\<rparr>,
             local_scenes := map (\<lambda>(idx, scene). initial_scene idx scene)
                               (enumerate 0 (response_scenes response)),
             isGeneratingScript := False,
             scriptGenerated := True\<rparr>))"

text \<open>
  The user changes the scene count on the story page; later the scene page mounts on the
  resulting document, finds no scenes, and generates a script.
\<close>

definition change_count_and_regenerate ::
  "int \<Rightarrow> script_response \<Rightarrow> component \<Rightarrow> component" where
  "change_count_and_regenerate n response c =
     (let c1 = c\<lparr>story := setSceneCount n (story c)\<rparr>
      in generateScript (story c1) (Inr response) c1)"

subsection \<open>The gate of the final step\<close>





subsection \<open>Regenerating one scene's image\<close>

text \<open>
  \<open>retryImage\<close> and \<open>generateSingleImage\<close> differ only before the request: the first also
  blanks the scene's image. \<open>cl\<close> is the component's \<open>scenes\<close> of the render in which the
  function was called, used for \<open>find\<close> and \<open>findIndex\<close>; every write is a functional
  update of the state current when it runs.
\<close>

definition retryImage_start :: "Scene list \<Rightarrow> string \<Rightarrow> component \<Rightarrow> component" where
  "retryImage_start cl sceneId c =
     (if \<not> list_ex (\<lambda>s. scene_id s = sceneId) cl then c
      else c\<lparr>local_scenes :=
               map (\<lambda>s. if scene_id s = sceneId
                         then s\<lparr>imageStatus := Status_generating, imageUrl := Null\<rparr> else s)
                   (local_scenes c)\<rparr>)"

definition generateSingleImage_start :: "Scene list \<Rightarrow> string \<Rightarrow> component \<Rightarrow> component" where
  "generateSingleImage_start cl sceneId c =
     (if \<not> list_ex (\<lambda>s. scene_id s = sceneId) cl then c
      else c\<lparr>local_scenes :=
               map (\<lambda>s. if scene_id s = sceneId then s\<lparr>imageStatus := Status_generating\<rparr> else s)
                   (local_scenes c)\<rparr>)"

definition image_answer :: "Scene list \<Rightarrow> string \<Rightarrow> js_error + string \<Rightarrow> component \<Rightarrow> component" where
  "image_answer cl sceneId answer c =
     (if \<not> list_ex (\<lambda>s. scene_id s = sceneId) cl then c
      else
        (case answer of
           Inl e \<Rightarrow>
             c\<lparr>local_scenes :=
                 map (\<lambda>s. if scene_id s = sceneId then s\<lparr>imageStatus := Status_error\<rparr> else s)
                     (local_scenes c)\<rparr>
         | Inr image_url \<Rightarrow>
             (let c1 = c\<lparr>local_scenes :=
                           map (\<lambda>s. if scene_id s = sceneId
                                     then s\<lparr>imageUrl := Url image_url, imageStatus := Status_ready,
                                            videoUrl := Null, videoStatus := Status_idle\<rparr>
                                     else s)
                               (local_scenes c)\<rparr>
              in case findIndex (\<lambda>s. scene_id s = sceneId) cl of
                   None \<Rightarrow> c1
                 | Some sceneIndex \<Rightarrow>
                     c1\<lparr>story := (story c1)
                          \<lparr>sceneImages := js_set (sceneImages (story c1)) sceneIndex image_url,
                           videos := js_set (videos (story c1)) sceneIndex []\<rparr>\<rparr>)))"

definition retryImage :: "Scene list \<Rightarrow> string \<Rightarrow> js_error + string \<Rightarrow> component \<Rightarrow> component" where
  "retryImage cl sceneId answer c = image_answer cl sceneId answer (retryImage_start cl sceneId c)"

definition generateSingleImage ::
  "Scene list \<Rightarrow> string \<Rightarrow> js_error + string \<Rightarrow> component \<Rightarrow> component" where
  "generateSingleImage cl sceneId answer c =
     image_answer cl sceneId answer (generateSingleImage_start cl sceneId c)"

subsection \<open>Partial results of the batch jobs\<close>

record image_partial =
  scene_images :: "js_strings option"

text \<open>
  \<open>partialImages.forEach((imageUrl, idx) => { if (imageUrl) updatedImages[idx] = imageUrl })\<close>
  run on a copy of \<open>base\<close>.
\<close>

definition merge_partial :: "js_strings \<Rightarrow> js_strings \<Rightarrow> js_strings" where
  "merge_partial base partialImages =
     fold (\<lambda>(idx, imageUrl) updated.
             (case imageUrl of
                None \<Rightarrow> updated
              | Some u \<Rightarrow> if u = [] then updated else js_set updated idx u))
          (enumerate 0 partialImages) base"

text \<open>
  The progress callback \<open>generateAllImages\<close> hands to the poller. \<open>cl\<close> is the story
  document of the render in which \<open>generateAllImages\<close> was created: the callback copies
  \<open>story.sceneImages\<close> from that object and passes the merged array to the plain setter.
  The component's own scenes are updated functionally.
\<close>

definition images_onProgress ::
  "story_context \<Rightarrow> image_partial progress_update \<Rightarrow> component \<Rightarrow> component" where
  "images_onProgress cl update c =
     (let c1 = c\<lparr>imageGenerationProgress :=
                   Some (cb_current update, cb_total update, cb_status update)\<rparr>
      in case partialResults update of
           None \<Rightarrow> c1
         | Some pr \<Rightarrow>
             (case scene_images pr of
                None \<Rightarrow> c1
              | Some partialImages \<Rightarrow>
                  c1\<lparr>local_scenes :=
                       map (\<lambda>(idx, scene).
                              if truthy (js_get partialImages idx)
                              then scene\<lparr>imageUrl := to_url (js_get partialImages idx),
                                         imageStatus := Status_ready\<rparr>
                              else scene)
                           (enumerate 0 (local_scenes c1)),
                     story := (story c1)
                       \<lparr>sceneImages := merge_partial (sceneImages cl) partialImages\<rparr>\<rparr>))"

record video_partial =
  partial_videos :: "js_strings option"

text \<open>
  The progress callback of \<open>generateAllVideos\<close>. \<open>scenesWithImages\<close> and \<open>cl\<close> are
  captured when \<open>generateAllVideos\<close> is called; a scene's position in that list is its
  position in the payload. The document is written only when the array built from the
  captured \<open>story.videos\<close> differs from it.
\<close>

definition videos_onProgress ::
  "story_context \<Rightarrow> Scene list \<Rightarrow> video_partial progress_update \<Rightarrow> component \<Rightarrow> component" where
  "videos_onProgress cl scenesWithImages update c =
     (let c1 = c\<lparr>videoGenerationProgress :=
                   Some (cb_current update, cb_total update, cb_status update)\<rparr>
      in case partialResults update of
           None \<Rightarrow> c1
         | Some pr \<Rightarrow>
             (case partial_videos pr of
                None \<Rightarrow> c1
              | Some partialVideos \<Rightarrow>
                  (let arrived = (\<lambda>scene.
                         case findIndex (\<lambda>s. scene_id s = scene_id scene) scenesWithImages of
                           None \<Rightarrow> None
                         | Some i \<Rightarrow> or_null (js_get partialVideos i));
                       currentScenes =
                         map (\<lambda>scene.
                                if arrived scene \<noteq> None \<and> videoUrl scene \<noteq> to_url (arrived scene)
                                then scene\<lparr>videoUrl := to_url (arrived scene),
                                           videoStatus := Status_ready\<rparr>
                                else scene)
                             (local_scenes c1);
                       updatedVideos =
                         map (\<lambda>(idx, scene).
                                if arrived scene \<noteq> None then arrived scene
                                else Some (or_else (js_get (videos cl) idx) []))
                             (enumerate 0 currentScenes);
                       hasChanges =
                         list_ex (\<lambda>(idx, url). url \<noteq> js_get (videos cl) idx)
                                 (enumerate 0 updatedVideos)
                   in c1\<lparr>local_scenes := currentScenes,
                         story := (if hasChanges then (story c1)\<lparr>videos := updatedVideos\<rparr>
                                   else story c1)\<rparr>)))"

section \<open>The final page (app/create/final/page.tsx)\<close>

record final_scene_input =
  video_url :: "string option"
  fv_narration_url :: string
  subtitle_text :: string
  fv_phonemes :: "string option"
  duration :: real

record final_page =
  fp_finalVideoUrl :: "string option"
  fp_hasGeneratedRef :: bool
  isRendering :: bool

text \<open>The page as it mounts: \<open>useState(story.finalVideoUrl || null)\<close>, \<open>useRef(false)\<close>.\<close>

definition mount_final_page :: "story_context \<Rightarrow> final_page" where
  "mount_final_page st =
     \<lparr>fp_finalVideoUrl = or_null (Some (finalVideoUrl st)),
      fp_hasGeneratedRef = False,
      isRendering = False\<rparr>"

text \<open>
  The \<open>scenes\<close> array \<open>handleGenerateFinalVideo\<close> sends: \<open>story.videos[idx]\<close> as it is
  (\<open>undefined\<close> past the end), the narration URL or the empty string, the duration or 5.
\<close>

definition final_scenes_payload :: "story_context \<Rightarrow> final_scene_input list" where
  "final_scenes_payload st =
     map (\<lambda>(idx, scene).
            \<lparr>video_url = js_get (videos st) idx,
             fv_narration_url = or_else (narration_url scene) [],
             subtitle_text = script_text scene,
             fv_phonemes = phonemes scene,
             duration = (case narration_duration scene of
                           None \<Rightarrow> 5 | Some d \<Rightarrow> if d = 0 then 5 else d)\<rparr>)
         (enumerate 0 (scenes st))"

text \<open>
  The auto-generate effect: the page after it, and the payload it submitted, if any.
\<close>

definition auto_generate_effect ::
  "story_context \<Rightarrow> final_page \<Rightarrow> final_page \<times> final_scene_input list option" where
  "auto_generate_effect st p =
     (if \<not> truthy (fp_finalVideoUrl p) \<and> finalVideoUrl st = [] \<and> videos st \<noteq> []
         \<and> \<not> fp_hasGeneratedRef p
      then (p\<lparr>fp_hasGeneratedRef := True, isRendering := True\<rparr>, Some (final_scenes_payload st))
      else (p, None))"


section \<open>Concrete states used in the examples\<close>

definition scene_line :: "int \<Rightarrow> string option \<Rightarrow> SceneLine" where
  "scene_line n narration =
     \<lparr>scene_number = n, scene_type = ''character'', script_text = ''Once upon a time'',
      narration_url = narration, narration_duration = None, phonemes = None\<rparr>"

text \<open>A story of five scenes whose first three videos exist.\<close>

definition five_scene_story :: story_context where
  "five_scene_story =
     \<lparr>selectedStyle = ''anime art style'', selectedThemes = [''friendship''], customTheme = [],
      characterName = ''Bee'', characterType = ''bee'', personality = ''brave'',
      characterDescription = [], characterImageUrl = ''bee.png'', characterPrompt = ''a bee'',
      storyTitle = ''The brave bee'',
      scenes = [scene_line 1 (Some ''n1.mp3''), scene_line 2 (Some ''n2.mp3''),
                scene_line 3 (Some ''n3.mp3''), scene_line 4 (Some ''n4.mp3''),
                scene_line 5 (Some ''n5.mp3'')],
      sceneCount = 5, imagePrompts = [], videoPrompts = [], visualBlueprint = None,
      sceneImages = [Some ''i1.png'', Some ''i2.png'', Some ''i3.png'', Some ''i4.png'',
                     Some ''i5.png''],
      videos = [Some ''v1.mp4'', Some ''v2.mp4'', Some ''v3.mp4'', Some [], Some []],
      sideCharacterImages = [], storySignature = ''old signature'', finalVideoUrl = [],
      isHydrated = True, isLoadingProjectRef = False, prevSceneCountRef = 5\<rparr>"

definition fresh_component :: "story_context \<Rightarrow> component" where
  "fresh_component st =
     \<lparr>story = st, local_scenes = [], completedImagesCount = 0, completedNarrationsCount = 0,
      isGeneratingScript = True, scriptGenerated = False, narrationsGenerated = False,
      isGeneratingImages = False, areVideoPromptsReady = False, hasGeneratedRef = False,
      narrationsGeneratedRef = False, imagesGeneratedRef = False, sideCharacterImagesRef = [],
      imageGenerationProgress = None, videoGenerationProgress = None\<rparr>"

text \<open>
  The same story when it had four scenes, and the page holding the signature recorded then.
\<close>

definition earlier_inputs :: story_context where
  "earlier_inputs = five_scene_story\<lparr>sceneCount := 4\<rparr>"

definition count_changed_component :: component where
  "count_changed_component =
     fresh_component (five_scene_story\<lparr>storySignature := currentSignature earlier_inputs\<rparr>)"

definition six_scene_script :: script_response where
  "six_scene_script =
     \<lparr>story_title = ''The brave bee'',
      response_scenes = [scene_line 1 None, scene_line 2 None, scene_line 3 None,
                         scene_line 4 None, scene_line 5 None, scene_line 6 None]\<rparr>"

text \<open>A persisted story whose \<open>videos\<close> array is shorter than its scenes.\<close>

definition short_videos_story :: story_context where
  "short_videos_story = five_scene_story\<lparr>videos := [Some ''v1.mp4'', Some ''v2.mp4'']\<rparr>"

definition ready_scene :: "string \<Rightarrow> Scene" where
  "ready_scene i =
     \<lparr>scene_id = i, sceneNumber = 1, sceneType = ''character'', scene_text = ''Once upon a time'',
      imagePrompt = ''p'', videoPrompt = ''q'', narrationUrl = Url ''n.mp3'',
      narrationStatus = Status_ready, narrationDuration = 3, narrationCurrentTime = 0,
      imageUrl = Url ''i.png'', imageStatus = Status_ready, videoUrl = Url ''v.mp4'',
      videoStatus = Status_ready, isPlayingNarration = False, charactersInScene = []\<rparr>"

definition all_ready_component :: component where
  "all_ready_component =
     (fresh_component (five_scene_story
        \<lparr>videos := [Some ''v1.mp4'', Some ''v2.mp4'', Some ''v3.mp4'', Some ''v4.mp4'',
                    Some ''v5.mp4'']\<rparr>))
     \<lparr>local_scenes := [ready_scene ''1'', ready_scene ''2'', ready_scene ''3'',
                        ready_scene ''4'', ready_scene ''5'']\<rparr>"

text \<open>Five scenes, the third without its video, on the page and in the document.\<close>

definition scene3_missing_video :: component where
  "scene3_missing_video =
     (fresh_component (five_scene_story
        \<lparr>videos := [Some ''v1.mp4'', Some ''v2.mp4'', Some [], Some ''v4.mp4'',
                    Some ''v5.mp4'']\<rparr>))
     \<lparr>local_scenes := [ready_scene ''1'', ready_scene ''2'',
                        (ready_scene ''3'')\<lparr>videoUrl := Null, videoStatus := Status_idle\<rparr>,
                        ready_scene ''4'', ready_scene ''5'']\<rparr>"

text \<open>
  Five scenes with all videos, the second with status ready and the empty string as its
  narration URL, as a single-narration answer with an empty \<open>audio_url\<close> leaves it.
\<close>

definition empty_narration_component :: component where
  "empty_narration_component =
     all_ready_component
     \<lparr>local_scenes := [ready_scene ''1'', (ready_scene ''2'')\<lparr>narrationUrl := Url []\<rparr>,
                        ready_scene ''3'', ready_scene ''4'', ready_scene ''5'']\<rparr>"

text \<open>Two scenes, one video, and a second scene without narration.\<close>

definition gap_story :: story_context where
  "gap_story =
     five_scene_story
     \<lparr>scenes := [scene_line 1 (Some ''n1.mp3''), scene_line 2 None],
      videos := [Some ''v1.mp4'']\<rparr>"

text \<open>
  A batch image job on a two-scene story without images: a first update with the first
  image, then an update whose array is empty.
\<close>

definition two_scene_story :: story_context where
  "two_scene_story =
     five_scene_story
     \<lparr>scenes := [scene_line 1 None, scene_line 2 None],
      sceneImages := [Some [], Some []], videos := [Some [], Some []]\<rparr>"

definition first_image_update :: "image_partial progress_update" where
  "first_image_update =
     \<lparr>cb_current = 1, cb_total = 2, cb_status = ''Generating images'',
      partialResults = Some \<lparr>scene_images = Some [Some ''i1.png'', Some []]\<rparr>\<rparr>"

definition empty_image_update :: "image_partial progress_update" where
  "empty_image_update =
     \<lparr>cb_current = 1, cb_total = 2, cb_status = ''Generating images'',
      partialResults = Some \<lparr>scene_images = Some []\<rparr>\<rparr>"

definition blank_scene :: "string \<Rightarrow> Scene" where
  "blank_scene i =
     (ready_scene i)\<lparr>imageUrl := Null, imageStatus := Status_generating,
                     videoUrl := Null, videoStatus := Status_idle\<rparr>"

definition two_scene_component :: component where
  "two_scene_component =
     (fresh_component two_scene_story)\<lparr>local_scenes := [blank_scene ''1'', blank_scene ''2'']\<rparr>"

definition first_video_update :: "video_partial progress_update" where
  "first_video_update =
     \<lparr>cb_current = 1, cb_total = 2, cb_status = ''Generating videos'',
      partialResults = Some \<lparr>partial_videos = Some [Some ''v1.mp4'', Some []]\<rparr>\<rparr>"

definition empty_video_update :: "video_partial progress_update" where
  "empty_video_update =
     \<lparr>cb_current = 1, cb_total = 2, cb_status = ''Generating videos'',
      partialResults = Some \<lparr>partial_videos = Some []\<rparr>\<rparr>"

section \<open>Properties of the poller\<close>

lemma step_body: "snd (poller_step cb iv g) = poll_body cb iv g"
  by (auto simp: poller_step_def poll_body_def Let_def split: sum.splits option.splits)

lemma step_polling:
  "(fst (poller_step cb iv g) = Polling) = list_ex is_timeout (poll_body cb iv g)"
  by (auto simp: poller_step_def poll_body_def Let_def split: sum.splits option.splits)

lemma run_settled: "s \<noteq> Polling \<Longrightarrow> poller_run cb iv s gs = []"
  by (cases s) auto

lemma poll_refines: "poll cb iv fs = poller_run cb iv Polling (map getJobStatus fs)"
proof (induction fs)
  case Nil
  show ?case by simp
next
  case (Cons f fs)
  show ?case
  proof (cases "list_ex is_timeout (poll_body cb iv (getJobStatus f))")
    case True
    then have "fst (poller_step cb iv (getJobStatus f)) = Polling"
      by (simp add: step_polling)
    with True Cons show ?thesis by (simp add: step_body Let_def)
  next
    case False
    then have "fst (poller_step cb iv (getJobStatus f)) \<noteq> Polling"
      by (simp add: step_polling)
    with False show ?thesis by (simp add: step_body Let_def run_settled)
  qed
qed

lemma poll_nonempty: "poll cb iv fs \<noteq> []"
  by (cases fs) (auto simp: Let_def)

lemma body_nonempty: "poll_body cb iv g \<noteq> []"
  by (auto simp: poll_body_def Let_def split: sum.splits option.splits)

lemma body_last:
  "\<not> list_ex is_timeout (poll_body cb iv g) \<Longrightarrow> is_settle (last (poll_body cb iv g))"
  by (auto simp: poll_body_def Let_def split: sum.splits option.splits if_splits)


lemma in_flight_last: "in_flight evs = (evs \<noteq> [] \<and> last evs = Get_status)"
  by (cases evs rule: rev_cases) (auto simp: in_flight_def)

lemma poll_append:
  "in_flight (poll cb iv fs) \<Longrightarrow> poll cb iv (fs @ gs) = butlast (poll cb iv fs) @ poll cb iv gs"
proof (induction fs)
  case Nil
  show ?case by simp
next
  case (Cons f fs)
  show ?case
  proof (cases "list_ex is_timeout (poll_body cb iv (getJobStatus f))")
    case True
    with Cons.prems have "in_flight (poll cb iv fs)"
      by (simp add: in_flight_last Let_def poll_nonempty)
    with Cons.IH True show ?thesis by (simp add: Let_def butlast_append poll_nonempty)
  next
    case False
    with Cons.prems body_last[OF False] show ?thesis
      by (auto simp add: in_flight_last Let_def body_nonempty)
  qed
qed

lemma poll_thrown:
  assumes "in_flight (poll cb iv fs)" and "getJobStatus f = Inl e"
  shows "poll cb iv (fs @ f # rest) = poll cb iv fs @ [Reject e]"
proof -
  have "poll cb iv (f # rest) = [Get_status, Reject e]"
    using assms(2) by (simp add: poll_body_def)
  moreover have "butlast (poll cb iv fs) @ [Get_status] = poll cb iv fs"
    using assms(1) by (metis in_flight_last append_butlast_last_id)
  ultimately show ?thesis using poll_append[OF assms(1), of "f # rest"] by simp
qed



lemmas poller_example_defs = pollJobUntilComplete_def poll_body_def getJobStatus_def delivered_def
  pending_job_def running_job_def done_job_def failed_job_def quiet_callback_def
  in_flight_def or_else_def Let_def

text \<open>
  Claim C1, as the source has it. For every sequence of answers to the status requests,
  \<open>pollJobUntilComplete\<close> produces the trace of the poller state machine \<open>poller_run\<close>
  started in \<open>Polling\<close>: on \<open>STARTED\<close> or \<open>PROGRESS\<close> it calls the callback with
  current, total, status and partial results exactly when a callback was supplied and the
  progress field is present, then arms the next tick (a callback that throws makes it
  reject with what was thrown instead); on \<open>PENDING\<close> or any other state it arms the next
  tick without calling the callback; on the first \<open>SUCCESS\<close> it resolves with the result
  field and on the first \<open>FAILURE\<close> it rejects, and in both cases no further request is
  issued whatever the later answers would have been. The rejection carries the record's
  error when that is a non-empty string and the message \<open>Job failed\<close> otherwise.
\<close>

theorem pollJobUntilComplete_state_machine:
  "pollJobUntilComplete cb iv fs
     = poller_run cb (case iv of None \<Rightarrow> 2000 | Some n \<Rightarrow> n) Polling (map getJobStatus fs)"
  unfolding pollJobUntilComplete_def by (rule poll_refines)

theorem pollJobUntilComplete_state_machine_witness:
  "poller_run (Some quiet_callback) 2000 Polling
     (map getJobStatus
        [delivered pending_job, delivered running_job, delivered failed_job, delivered done_job])
   = [Get_status, Set_timeout 2000,
      Get_status, On_progress \<lparr>cb_current = 1, cb_total = 5, cb_status = ''working'',
                    partialResults = Some ''partial''\<rparr>, Set_timeout 2000,
      Get_status, Reject (Error ''Job failed'')]"
  using pollJobUntilComplete_state_machine [of "Some quiet_callback" None
      "[delivered pending_job, delivered running_job, delivered failed_job, delivered done_job]",
      symmetric]
  by (simp add: poller_example_defs)

text \<open>
  Claim C1 as stated fails where the \<open>FAILURE\<close> record carries no error text: the
  specification's machine rejects with the record's error, the source rejects with the
  fixed message \<open>Job failed\<close>.
\<close>

theorem failure_message_counterexample:
  "pollJobUntilComplete None None [delivered failed_job]
     = [Get_status, Reject (Error ''Job failed'')]
   \<and> pollJobUntilComplete None None [delivered failed_job]
       \<noteq> spec_poller_run None 2000 Polling [failed_job]"
  by (simp add: poller_example_defs spec_poller_step_def)




text \<open>
  Claim C9. While the poller is waiting for an answer, a status fetch that throws a
  network error makes it reject its promise with that error, and that is the end of the
  trace: whatever the network would have answered afterwards, no further status request
  is issued.
\<close>

theorem poll_transport_failure_rejects:
  assumes "in_flight (pollJobUntilComplete cb iv fs)"
  shows "pollJobUntilComplete cb iv (fs @ Fetch_rejects e # rest)
           = pollJobUntilComplete cb iv fs @ [Reject e]"
  using assms unfolding pollJobUntilComplete_def
  by (intro poll_thrown) (simp_all add: getJobStatus_def)

theorem poll_transport_failure_rejects_witness:
  "in_flight (pollJobUntilComplete None None [delivered pending_job])
   \<and> pollJobUntilComplete None None
        ([delivered pending_job] @ Fetch_rejects (Error ''Failed to fetch'') # [delivered done_job])
      = [Get_status, Set_timeout 2000, Get_status, Reject (Error ''Failed to fetch'')]"
proof -
  have h: "in_flight (pollJobUntilComplete None None [delivered pending_job])"
    by (simp add: poller_example_defs)
  show ?thesis
    using h poll_transport_failure_rejects [OF h, of "Error ''Failed to fetch''"
        "[delivered done_job]"]
    by (simp add: poller_example_defs)
qed

section \<open>Properties of the story document and the scene page\<close>

lemma js_get_js_set: "js_get (js_set xs i v) j = (if j = i then Some v else js_get xs j)"
  by (auto simp: js_get_def js_set_def nth_append nth_Cons')

lemma length_adjusted_array: "length (adjusted_array n xs) = n"
  by (simp add: adjusted_array_def)

lemma js_get_adjusted_array:
  "js_get (adjusted_array n xs) i = (if i < n then Some (or_else (js_get xs i) []) else None)"
  by (simp add: adjusted_array_def js_get_def)

lemma adjusted_array_Nil: "adjusted_array n [] = replicate n (Some [])"
  by (simp add: adjusted_array_def js_get_def or_else_def map_replicate_const)

lemma findIndex_ex: "findIndex p xs = Some i \<Longrightarrow> list_ex p xs"
  by (induction xs arbitrary: i) (auto split: if_splits option.splits)

lemma currentSignature_nonempty: "currentSignature st \<noteq> []"
  by (simp add: currentSignature_def)

lemma currentSignature_clear:
  "currentSignature ((clearGeneratedContent st)\<lparr>storySignature := s\<rparr>) = currentSignature st"
  by (simp add: currentSignature_def clearGeneratedContent_def)

lemma currentSignature_clear0:
  "currentSignature (clearGeneratedContent st) = currentSignature st"
  by (simp add: currentSignature_def clearGeneratedContent_def)

lemma currentSignature_record:
  "currentSignature (st\<lparr>storySignature := s\<rparr>) = currentSignature st"
  by (simp add: currentSignature_def)

lemma hex_val_digits: "list_all (\<lambda>m. hex_val (hex_digit m) = m) [0..<16]"
  by code_simp

lemma hex_val_hex_digit: "hex_val (hex_digit k) = k mod 16"
proof -
  have "k mod 16 \<in> set [0..<16]" by simp
  with hex_val_digits have "hex_val (hex_digit (k mod 16)) = k mod 16"
    unfolding list_all_iff by blast
  then show ?thesis by (simp add: hex_digit_def)
qed

lemma unescape1_escape: "unescape1 (json_escape c @ X) = Some (c, X)"
proof -
  have low: "char_of (16 * ((of_char c :: nat) div 16 mod 16) + of_char c mod 16) = c"
  proof -
    have "(of_char c :: nat) < 256" by simp
    then have "(of_char c :: nat) div 16 < 16" by arith
    then have "(of_char c :: nat) div 16 mod 16 = of_char c div 16" by simp
    then show ?thesis by simp
  qed
  show ?thesis
    by (simp add: json_escape_def unescape1_def hex_val_hex_digit low)
qed


lemma json_escape_prefix:
  "json_escape c @ X = json_escape c' @ X' \<Longrightarrow> c = c' \<and> X = X'"
proof -
  assume "json_escape c @ X = json_escape c' @ X'"
  then have "unescape1 (json_escape c @ X) = unescape1 (json_escape c' @ X')" by simp
  then show ?thesis by (simp add: unescape1_escape)
qed

lemma json_escape_not_quote: "json_escape c @ X \<noteq> CHR 0x22 # Y"
  by (simp add: json_escape_def)

lemma json_body_prefix:
  "concat (map json_escape s) @ CHR 0x22 # r = concat (map json_escape s') @ CHR 0x22 # r'
     \<Longrightarrow> s = s' \<and> r = r'"
proof (induction s arbitrary: s')
  case Nil
  then show ?case
  proof (cases s')
    case Nil
    with Nil.prems show ?thesis by simp
  next
    case (Cons c' cs')
    with Nil.prems have "json_escape c' @ (concat (map json_escape cs') @ CHR 0x22 # r') = CHR 0x22 # r"
      by simp
    with json_escape_not_quote show ?thesis by blast
  qed
next
  case (Cons c cs)
  show ?case
  proof (cases s')
    case Nil
    with Cons.prems have "json_escape c @ (concat (map json_escape cs) @ CHR 0x22 # r) = CHR 0x22 # r'"
      by simp
    with json_escape_not_quote show ?thesis by blast
  next
    case (Cons c' cs')
    with Cons.prems have
      "json_escape c @ (concat (map json_escape cs) @ CHR 0x22 # r)
         = json_escape c' @ (concat (map json_escape cs') @ CHR 0x22 # r')"
      by simp
    from json_escape_prefix[OF this] have "c = c'" 
      "concat (map json_escape cs) @ CHR 0x22 # r = concat (map json_escape cs') @ CHR 0x22 # r'"
      by simp_all
    with Cons.IH[of cs'] Cons show ?thesis by simp
  qed
qed



lemma json_string_append_eq:
  "(json_string s @ r = json_string s' @ r') = (s = s' \<and> r = r')"
proof
  assume "json_string s @ r = json_string s' @ r'"
  then have "concat (map json_escape s) @ CHR 0x22 # r = concat (map json_escape s') @ CHR 0x22 # r'"
    by (simp add: json_string_def)
  then show "s = s' \<and> r = r'" by (rule json_body_prefix)
qed simp

lemma comma_separated_Cons: "comma_separated (x # xs) = x @ comma_tail xs"
  by (induction xs arbitrary: x) simp_all

lemma json_string_hd: "json_string s @ X \<noteq> CHR '']'' # Y"
  by (simp add: json_string_def)

lemma comma_tail_prefix:
  "comma_tail (map json_string xs) @ CHR '']'' # r
     = comma_tail (map json_string ys) @ CHR '']'' # r'
   \<Longrightarrow> xs = ys \<and> r = r'"
proof (induction xs arbitrary: ys)
  case Nil
  then show ?case by (cases ys) simp_all
next
  case (Cons x xs)
  show ?case
  proof (cases ys)
    case Nil
    with Cons.prems show ?thesis by simp
  next
    case (Cons y ys')
    with Cons.prems have
      "json_string x @ (comma_tail (map json_string xs) @ CHR '']'' # r)
         = json_string y @ (comma_tail (map json_string ys') @ CHR '']'' # r')"
      by simp
    then have "x = y" "comma_tail (map json_string xs) @ CHR '']'' # r
         = comma_tail (map json_string ys') @ CHR '']'' # r'"
      by (simp_all only: json_string_append_eq)
    with Cons.IH[of ys'] Cons show ?thesis by simp
  qed
qed

lemma json_string_array_append_eq:
  "(json_string_array xs @ r = json_string_array ys @ r') = (xs = ys \<and> r = r')"
proof
  assume a: "json_string_array xs @ r = json_string_array ys @ r'"
  show "xs = ys \<and> r = r'"
  proof (cases xs)
    case Nil
    note nx = Nil
    show ?thesis
    proof (cases ys)
      case Nil
      with a nx show ?thesis by (simp add: json_string_array_def)
    next
      case (Cons y ys')
      with a nx have "json_string y @ (comma_tail (map json_string ys') @ CHR '']'' # r')
          = CHR '']'' # r"
        by (simp add: json_string_array_def comma_separated_Cons)
      with json_string_hd show ?thesis by blast
    qed
  next
    case (Cons x xs')
    note cx = Cons
    show ?thesis
    proof (cases ys)
      case Nil
      with a cx have "json_string x @ (comma_tail (map json_string xs') @ CHR '']'' # r)
          = CHR '']'' # r'"
        by (simp add: json_string_array_def comma_separated_Cons)
      with json_string_hd show ?thesis by blast
    next
      case (Cons y ys')
      with a cx have
        "json_string x @ (comma_tail (map json_string xs') @ CHR '']'' # r)
           = json_string y @ (comma_tail (map json_string ys') @ CHR '']'' # r')"
        by (simp add: json_string_array_def comma_separated_Cons)
      then have "x = y" "comma_tail (map json_string xs') @ CHR '']'' # r
           = comma_tail (map json_string ys') @ CHR '']'' # r'"
        by (simp_all only: json_string_append_eq)
      with comma_tail_prefix[of xs' r ys' r'] cx Cons show ?thesis by simp
    qed
  qed
qed simp


lemma digit_codes: "list_all (\<lambda>k. (of_char (''0123456789'' ! k) :: nat) = 48 + k) [0..<10]"
  by code_simp

lemma digit_code: "k < 10 \<Longrightarrow> (of_char (''0123456789'' ! k) :: nat) = 48 + k"
proof -
  assume "k < 10"
  then have "k \<in> set [0..<10]" by simp
  with digit_codes show ?thesis unfolding list_all_iff by blast
qed

lemma read_nat_snoc: "read_nat (s @ [c]) = 10 * read_nat s + (of_char c - 48)"
  by (simp add: read_nat_def)

lemma read_show_nat: "read_nat (show_nat n) = n"
proof (induction n rule: show_nat.induct)
  case (1 n)
  show ?case
  proof (cases "n < 10")
    case True
    then show ?thesis
      by (subst show_nat.simps) (simp add: read_nat_def digit_code)
  next
    case False
    with 1 have "read_nat (show_nat (n div 10)) = n div 10" by simp
    with False show ?thesis
      by (subst show_nat.simps) (simp add: read_nat_snoc digit_code)
  qed
qed

lemma show_nat_hd: "\<exists>c cs. show_nat n = c # cs \<and> c \<noteq> CHR ''-''"
proof (induction n rule: show_nat.induct)
  case (1 n)
  show ?case
  proof (cases "n < 10")
    case True
    have "(of_char (''0123456789'' ! n) :: nat) \<noteq> of_char CHR ''-''"
      using digit_code[OF True] by simp
    then have "''0123456789'' ! n \<noteq> CHR ''-''" by auto
    with True show ?thesis by (subst show_nat.simps) simp
  next
    case False
    with 1 obtain c cs where "show_nat (n div 10) = c # cs" "c \<noteq> CHR ''-''" by blast
    with False show ?thesis by (subst show_nat.simps) simp
  qed
qed

lemma read_json_number: "read_int (json_number i) = i"
proof (cases "i < 0")
  case True
  then show ?thesis by (simp add: json_number_def read_int_def read_show_nat)
next
  case False
  obtain c cs where s: "show_nat (nat i) = c # cs" "c \<noteq> CHR ''-''"
    using show_nat_hd by blast
  have "read_nat (c # cs) = nat i" using read_show_nat[of "nat i"] s by simp
  with False s show ?thesis by (simp add: json_number_def read_int_def)
qed

lemma json_number_inj: "(json_number i = json_number j) = (i = j)"
  by (metis read_json_number)

lemma currentSignature_inj:
  "(currentSignature st = currentSignature st') = (inputs_of st = inputs_of st')"
  by (simp add: currentSignature_def json_member_def json_string_append_eq
      json_string_array_append_eq json_number_inj inputs_of_def)

lemma setSceneCount_clears:
  assumes "isHydrated st" and "\<not> isLoadingProjectRef st"
    and "prevSceneCountRef st \<noteq> 0" and "prevSceneCountRef st \<noteq> n"
  shows "videos (setSceneCount n st) = []"
  using assms by (simp add: setSceneCount_def sceneCount_watcher_def clearGeneratedContent_def)

lemma length_final_scenes_payload: "length (final_scenes_payload st) = length (scenes st)"
  by (simp add: final_scenes_payload_def)

lemma nth_final_scenes_payload:
  "idx < length (scenes st) \<Longrightarrow>
     video_url (final_scenes_payload st ! idx) = js_get (videos st) idx
     \<and> fv_narration_url (final_scenes_payload st ! idx)
         = or_else (narration_url (scenes st ! idx)) []"
  by (simp add: final_scenes_payload_def nth_enumerate_eq)

lemmas example_defs = five_scene_story_def fresh_component_def six_scene_script_def scene_line_def
  short_videos_story_def ready_scene_def all_ready_component_def scene3_missing_video_def
  gap_story_def two_scene_story_def first_image_update_def empty_image_update_def
  blank_scene_def two_scene_component_def empty_narration_component_def




text \<open>
  Claim C4. When a signature is recorded and differs from the one computed from the
  current inputs, one run of the effect clears title, scenes, image and video prompts,
  blueprint, scene images, videos, side-character images and final video together and
  records the new signature. When no signature is recorded it clears nothing and only
  records the signature. When the recorded signature equals the current one it changes
  nothing. The signature determines the ten inputs, so against a signature recorded from
  earlier inputs the invalidation fires exactly when one of the ten inputs has changed.
  After any run the recorded signature is the current one: a further run does not clear,
  and a later state that still holds it fires exactly when an input has changed since.
\<close>

theorem signature_invalidation_once:
  "(invalidation_fires c \<longrightarrow>
      story (signature_effect c)
        = (clearGeneratedContent (story c))\<lparr>storySignature := currentSignature (story c)\<rparr>
      \<and> storyTitle (story (signature_effect c)) = []
      \<and> scenes (story (signature_effect c)) = []
      \<and> imagePrompts (story (signature_effect c)) = []
      \<and> videoPrompts (story (signature_effect c)) = []
      \<and> visualBlueprint (story (signature_effect c)) = None
      \<and> sceneImages (story (signature_effect c)) = []
      \<and> videos (story (signature_effect c)) = []
      \<and> sideCharacterImages (story (signature_effect c)) = []
      \<and> finalVideoUrl (story (signature_effect c)) = [])
   \<and> (storySignature (story c) = [] \<longrightarrow>
        \<not> invalidation_fires c
        \<and> signature_effect c
            = c\<lparr>story := (story c)\<lparr>storySignature := currentSignature (story c)\<rparr>\<rparr>)
   \<and> (storySignature (story c) = currentSignature (story c) \<longrightarrow>
        \<not> invalidation_fires c \<and> signature_effect c = c)
   \<and> (storySignature (story c) = currentSignature st0 \<longrightarrow>
        (invalidation_fires c \<longleftrightarrow> inputs_of (story c) \<noteq> inputs_of st0))
   \<and> storySignature (story (signature_effect c)) = currentSignature (story c)
   \<and> \<not> invalidation_fires (signature_effect c)
   \<and> signature_effect (signature_effect c) = signature_effect c
   \<and> (storySignature (story c') = storySignature (story (signature_effect c)) \<longrightarrow>
        (invalidation_fires c' \<longleftrightarrow> inputs_of (story c') \<noteq> inputs_of (story c)))"
proof -
  have rec: "storySignature (story (signature_effect c)) = currentSignature (story c)"
    by (simp add: signature_effect_def Let_def)
  have cur: "currentSignature (story (signature_effect c)) = currentSignature (story c)"
    by (simp add: signature_effect_def Let_def currentSignature_clear currentSignature_clear0
        currentSignature_record)
  have nf: "\<not> invalidation_fires (signature_effect c)"
    by (simp add: invalidation_fires_def rec cur)
  have idem: "signature_effect (signature_effect c) = signature_effect c"
    using rec cur currentSignature_nonempty[of "story c"]
    by (subst (1) signature_effect_def) (simp add: Let_def)
  have fires: "invalidation_fires c \<longrightarrow>
      story (signature_effect c)
        = (clearGeneratedContent (story c))\<lparr>storySignature := currentSignature (story c)\<rparr>"
    by (simp add: invalidation_fires_def signature_effect_def Let_def)
  have changed: "invalidation_fires d \<longleftrightarrow> inputs_of (story d) \<noteq> inputs_of st"
    if "storySignature (story d) = currentSignature st" for d st
    using that currentSignature_nonempty[of st] currentSignature_inj[of st "story d"]
    by (auto simp: invalidation_fires_def)
  have since: "storySignature (story c') = storySignature (story (signature_effect c)) \<longrightarrow>
        (invalidation_fires c' \<longleftrightarrow> inputs_of (story c') \<noteq> inputs_of (story c))"
    using changed[of c' "story c"] rec by simp
  have first: "(invalidation_fires c \<longrightarrow>
      story (signature_effect c)
        = (clearGeneratedContent (story c))\<lparr>storySignature := currentSignature (story c)\<rparr>
      \<and> storyTitle (story (signature_effect c)) = []
      \<and> scenes (story (signature_effect c)) = []
      \<and> imagePrompts (story (signature_effect c)) = []
      \<and> videoPrompts (story (signature_effect c)) = []
      \<and> visualBlueprint (story (signature_effect c)) = None
      \<and> sceneImages (story (signature_effect c)) = []
      \<and> videos (story (signature_effect c)) = []
      \<and> sideCharacterImages (story (signature_effect c)) = []
      \<and> finalVideoUrl (story (signature_effect c)) = [])
   \<and> (storySignature (story c) = [] \<longrightarrow>
        \<not> invalidation_fires c
        \<and> signature_effect c
            = c\<lparr>story := (story c)\<lparr>storySignature := currentSignature (story c)\<rparr>\<rparr>)
   \<and> (storySignature (story c) = currentSignature (story c) \<longrightarrow>
        \<not> invalidation_fires c \<and> signature_effect c = c)"
    using fires currentSignature_nonempty[of "story c"]
    by (auto simp: invalidation_fires_def signature_effect_def Let_def clearGeneratedContent_def)
  show ?thesis
    using first changed[of c st0] rec nf idem since by blast
qed

theorem signature_invalidation_once_witness:
  "invalidation_fires (fresh_component five_scene_story)
   \<and> videos (story (signature_effect (fresh_component five_scene_story))) = []
   \<and> scenes (story (signature_effect (fresh_component five_scene_story))) = []
   \<and> \<not> invalidation_fires (signature_effect (fresh_component five_scene_story))
   \<and> storySignature (story (fresh_component (five_scene_story\<lparr>storySignature := []\<rparr>))) = []
   \<and> videos (story (signature_effect (fresh_component (five_scene_story\<lparr>storySignature := []\<rparr>))))
       = [Some ''v1.mp4'', Some ''v2.mp4'', Some ''v3.mp4'', Some [], Some []]
   \<and> storySignature (story count_changed_component) = currentSignature earlier_inputs
   \<and> inputs_of (story count_changed_component) \<noteq> inputs_of earlier_inputs
   \<and> invalidation_fires count_changed_component"
proof -
  let ?c = "fresh_component five_scene_story"
  let ?d = "fresh_component (five_scene_story\<lparr>storySignature := []\<rparr>)"
  have a: "invalidation_fires ?c"
    by (simp add: example_defs invalidation_fires_def currentSignature_def)
  have b: "storySignature (story ?d) = []"
    by (simp add: example_defs)
  from a signature_invalidation_once[of ?c]
  have c: "videos (story (signature_effect ?c)) = []" "scenes (story (signature_effect ?c)) = []"
    "\<not> invalidation_fires (signature_effect ?c)"
    by blast+
  from b signature_invalidation_once[of ?d]
  have "signature_effect ?d
          = ?d\<lparr>story := (story ?d)\<lparr>storySignature := currentSignature (story ?d)\<rparr>\<rparr>"
    by blast
  then have "videos (story (signature_effect ?d)) = videos (story ?d)"
    by simp
  then have d: "videos (story (signature_effect ?d))
       = [Some ''v1.mp4'', Some ''v2.mp4'', Some ''v3.mp4'', Some [], Some []]"
    by (simp add: example_defs)
  have e: "storySignature (story count_changed_component) = currentSignature earlier_inputs"
    by (simp add: count_changed_component_def fresh_component_def)
  have f: "inputs_of (story count_changed_component) \<noteq> inputs_of earlier_inputs"
    by (simp add: count_changed_component_def fresh_component_def earlier_inputs_def inputs_of_def
        five_scene_story_def)
  from e f signature_invalidation_once[of count_changed_component earlier_inputs]
  have g: "invalidation_fires count_changed_component" by blast
  from a b c d e f g show ?thesis by blast
qed

text \<open>
  The progress callback of the batch video job, on the same two updates: it writes the
  document only when the array it built differs from the captured one, so an empty update
  leaves the merged video in place.
\<close>

lemma videos_empty_update_keeps:
  "videos (story (videos_onProgress two_scene_story (local_scenes two_scene_component)
        empty_video_update
        (videos_onProgress two_scene_story (local_scenes two_scene_component)
           first_video_update two_scene_component)))
     = [Some ''v1.mp4'', Some []]"
  by (simp add: example_defs first_video_update_def empty_video_update_def videos_onProgress_def
      enumerate_eq_zip upt_rec js_get_def or_null_def or_else_def truthy_def to_url_def Let_def)

text \<open>
  Claim C5, evaluated on the source. The progress callback of the batch image job builds
  the merged array from the \<open>sceneImages\<close> it captured when the job was started, not from
  the document as it is now. After a first update carrying the first image, an update
  with an empty array puts the captured array back: the image already merged into the
  document is overwritten with the empty string, while the page's own scene keeps it.
  In the same way an image that \<open>retryImage\<close> stored for the second scene while the job
  was running is overwritten with the empty string by the next update, although that
  update has no entry for the second scene.
\<close>

theorem images_partial_merge_reverts:
  "sceneImages (story (images_onProgress two_scene_story first_image_update two_scene_component))
     = [Some ''i1.png'', Some []]
   \<and> sceneImages (story (images_onProgress two_scene_story empty_image_update
        (images_onProgress two_scene_story first_image_update two_scene_component)))
     = [Some [], Some []]
   \<and> map imageUrl (local_scenes (images_onProgress two_scene_story empty_image_update
        (images_onProgress two_scene_story first_image_update two_scene_component)))
     = [Url ''i1.png'', Null]
   \<and> sceneImages (story (retryImage (local_scenes two_scene_component) ''2'' (Inr ''r2.png'')
        two_scene_component))
     = [Some [], Some ''r2.png'']
   \<and> sceneImages (story (images_onProgress two_scene_story first_image_update
        (retryImage (local_scenes two_scene_component) ''2'' (Inr ''r2.png'')
           two_scene_component)))
     = [Some ''i1.png'', Some []]"
  by (simp add: example_defs images_onProgress_def merge_partial_def enumerate_eq_zip upt_rec
      js_set_def js_get_def truthy_def to_url_def retryImage_def retryImage_start_def
      image_answer_def Let_def)

text \<open>
  Claim C6. When the scene page mounts on a persisted story (scenes present, nothing
  generated yet in this page), the step leaves \<open>scenes\<close> as it is, makes \<open>videos\<close> and
  \<open>sceneImages\<close> exactly as long as \<open>scenes\<close>, and starts no generation. Every string held
  at an index below the number of scenes is still there afterwards, and every index the
  old array did not reach holds the empty string. The adjustment in \<open>generateScript\<close>
  gives both arrays the length of the new scene list in the same way.
\<close>

theorem resume_aligns_arrays:
  assumes "scenes (story c) \<noteq> []" and "\<not> hasGeneratedRef c"
  shows "scenes (story (fst (script_mount_effect c))) = scenes (story c)
    \<and> length (videos (story (fst (script_mount_effect c)))) = length (scenes (story c))
    \<and> length (sceneImages (story (fst (script_mount_effect c)))) = length (scenes (story c))
    \<and> \<not> snd (script_mount_effect c)
    \<and> (\<forall>i s. js_get (videos (story c)) i = Some s \<and> i < length (scenes (story c)) \<longrightarrow>
           js_get (videos (story (fst (script_mount_effect c)))) i = Some s)
    \<and> (\<forall>i s. js_get (sceneImages (story c)) i = Some s \<and> i < length (scenes (story c)) \<longrightarrow>
           js_get (sceneImages (story (fst (script_mount_effect c)))) i = Some s)
    \<and> (\<forall>i. length (videos (story c)) \<le> i \<and> i < length (scenes (story c)) \<longrightarrow>
           js_get (videos (story (fst (script_mount_effect c)))) i = Some [])
    \<and> (\<forall>i. length (sceneImages (story c)) \<le> i \<and> i < length (scenes (story c)) \<longrightarrow>
           js_get (sceneImages (story (fst (script_mount_effect c)))) i = Some [])
    \<and> length (videos (story (generateScript (story c) (Inr response) c)))
        = length (scenes (story (generateScript (story c) (Inr response) c)))
    \<and> length (sceneImages (story (generateScript (story c) (Inr response) c)))
        = length (scenes (story (generateScript (story c) (Inr response) c)))"
proof -
  let ?st = "story c"
  let ?n = "length (scenes ?st)"
  have v: "videos (story (fst (script_mount_effect c)))
            = (if length (videos ?st) \<noteq> ?n then adjusted_array ?n (videos ?st) else videos ?st)"
    using assms by (simp add: script_mount_effect_def Let_def)
  have i: "sceneImages (story (fst (script_mount_effect c)))
            = (if length (sceneImages ?st) \<noteq> ?n then adjusted_array ?n (sceneImages ?st)
               else sceneImages ?st)"
    using assms by (simp add: script_mount_effect_def Let_def)
  have s: "scenes (story (fst (script_mount_effect c))) = scenes ?st"
    "\<not> snd (script_mount_effect c)"
    using assms by (simp_all add: script_mount_effect_def Let_def)
  have keep: "js_get (if length xs \<noteq> ?n then adjusted_array ?n xs else xs) k = Some t"
    if "js_get xs k = Some t" "k < ?n" for xs :: js_strings and k t
    using that by (auto simp: js_get_adjusted_array or_else_def)
  have fill: "js_get (if length xs \<noteq> ?n then adjusted_array ?n xs else xs) k = Some []"
    if "length xs \<le> k" "k < ?n" for xs :: js_strings and k
  proof -
    have "js_get xs k = None" using that by (simp add: js_get_def)
    with that show ?thesis by (auto simp: js_get_adjusted_array or_else_def)
  qed
  have g: "length (videos (story (generateScript ?st (Inr response) c)))
        = length (scenes (story (generateScript ?st (Inr response) c)))"
    "length (sceneImages (story (generateScript ?st (Inr response) c)))
        = length (scenes (story (generateScript ?st (Inr response) c)))"
    by (simp_all add: generateScript_def Let_def length_adjusted_array)
  show ?thesis
    unfolding v i using s keep fill g by (auto simp: length_adjusted_array)
qed

theorem resume_aligns_arrays_witness:
  "scenes (story (fresh_component short_videos_story)) \<noteq> []
   \<and> \<not> hasGeneratedRef (fresh_component short_videos_story)
   \<and> length (videos (story (fresh_component short_videos_story))) = 2
   \<and> videos (story (fst (script_mount_effect (fresh_component short_videos_story))))
       = [Some ''v1.mp4'', Some ''v2.mp4'', Some [], Some [], Some []]"
proof -
  have h: "scenes (story (fresh_component short_videos_story)) \<noteq> []"
    "\<not> hasGeneratedRef (fresh_component short_videos_story)"
    by (simp_all add: example_defs)
  have e: "videos (story (fst (script_mount_effect (fresh_component short_videos_story))))
       = [Some ''v1.mp4'', Some ''v2.mp4'', Some [], Some [], Some []]"
    by (simp add: example_defs script_mount_effect_def Let_def adjusted_array_def js_get_def
        or_else_def upt_rec)
  from h e resume_aligns_arrays[OF h] show ?thesis by (simp add: example_defs)
qed

text \<open>
  Claim C7 as stated fails: with five scenes and videos at indices 0 to 2, changing the
  scene count to 6 and regenerating the script leaves six empty entries; the three videos
  are gone.
\<close>

theorem scene_count_change_counterexample:
  "videos (story (fresh_component five_scene_story))
     = [Some ''v1.mp4'', Some ''v2.mp4'', Some ''v3.mp4'', Some [], Some []]
   \<and> videos (story (change_count_and_regenerate 6 six_scene_script
        (fresh_component five_scene_story)))
     = [Some [], Some [], Some [], Some [], Some [], Some []]"
  by (simp add: example_defs change_count_and_regenerate_def setSceneCount_def
      sceneCount_watcher_def clearGeneratedContent_def generateScript_def adjusted_array_def
      js_get_def or_else_def Let_def)

text \<open>
  Claim C7, as the source has it. In a hydrated story that is not being loaded from a
  project, changing a non-zero scene count to a different one makes the watcher clear the
  generated content, so after the script has been regenerated the videos array has one
  entry per new scene and every entry is the empty string. The adjustment by itself,
  applied to the five-entry array that still holds its three videos, would keep them and
  add one empty entry.
\<close>

theorem scene_count_change_clears_videos:
  assumes "isHydrated (story c)" and "\<not> isLoadingProjectRef (story c)"
    and "prevSceneCountRef (story c) \<noteq> 0" and "prevSceneCountRef (story c) \<noteq> n"
  shows "videos (story (change_count_and_regenerate n response c))
           = replicate (length (response_scenes response)) (Some [])
    \<and> adjusted_array 6 (videos five_scene_story)
        = [Some ''v1.mp4'', Some ''v2.mp4'', Some ''v3.mp4'', Some [], Some [], Some []]"
proof -
  have a: "adjusted_array 6 (videos five_scene_story)
        = [Some ''v1.mp4'', Some ''v2.mp4'', Some ''v3.mp4'', Some [], Some [], Some []]"
    by (simp add: five_scene_story_def adjusted_array_def js_get_def or_else_def upt_rec)
  show ?thesis
    using setSceneCount_clears[OF assms] a
    by (simp add: change_count_and_regenerate_def generateScript_def Let_def adjusted_array_Nil)
qed

theorem scene_count_change_clears_videos_witness:
  "isHydrated (story (fresh_component five_scene_story))
   \<and> \<not> isLoadingProjectRef (story (fresh_component five_scene_story))
   \<and> prevSceneCountRef (story (fresh_component five_scene_story)) \<noteq> 0
   \<and> prevSceneCountRef (story (fresh_component five_scene_story)) \<noteq> 6
   \<and> videos (story (change_count_and_regenerate 6 six_scene_script
        (fresh_component five_scene_story)))
       = [Some [], Some [], Some [], Some [], Some [], Some []]"
proof -
  have h: "isHydrated (story (fresh_component five_scene_story))"
    "\<not> isLoadingProjectRef (story (fresh_component five_scene_story))"
    "prevSceneCountRef (story (fresh_component five_scene_story)) \<noteq> 0"
    "prevSceneCountRef (story (fresh_component five_scene_story)) \<noteq> 6"
    by (simp_all add: example_defs)
  from h scene_count_change_clears_videos[OF h, of six_scene_script]
  show ?thesis by (simp add: six_scene_script_def)
qed

text \<open>
  Claim C8. When the image of the scene at index \<open>i\<close> is regenerated and the service
  answers with a URL, the document afterwards differs from the document before in two
  places only: \<open>sceneImages\<close> holds the new URL at \<open>i\<close>, and \<open>videos\<close> holds the empty
  string at \<open>i\<close>. Reading any other index of either array gives what it gave before.
  \<open>generateSingleImage\<close> and \<open>retryImage\<close> leave the same document.
\<close>

theorem regenerate_image_frame:
  assumes "findIndex (\<lambda>s. scene_id s = sceneId) cl = Some i"
  shows "js_get (sceneImages (story (retryImage cl sceneId (Inr url) c))) i = Some url
    \<and> js_get (videos (story (retryImage cl sceneId (Inr url) c))) i = Some []
    \<and> (\<forall>j. j \<noteq> i \<longrightarrow>
          js_get (sceneImages (story (retryImage cl sceneId (Inr url) c))) j
            = js_get (sceneImages (story c)) j
          \<and> js_get (videos (story (retryImage cl sceneId (Inr url) c))) j
            = js_get (videos (story c)) j)
    \<and> story (generateSingleImage cl sceneId (Inr url) c)
        = story (retryImage cl sceneId (Inr url) c)
    \<and> story (retryImage cl sceneId (Inr url) c)
        = (story c)\<lparr>sceneImages := js_set (sceneImages (story c)) i url,
                    videos := js_set (videos (story c)) i []\<rparr>"
proof -
  have ex: "list_ex (\<lambda>s. scene_id s = sceneId) cl" using assms by (rule findIndex_ex)
  have r: "story (retryImage cl sceneId (Inr url) c)
        = (story c)\<lparr>sceneImages := js_set (sceneImages (story c)) i url,
                    videos := js_set (videos (story c)) i []\<rparr>"
    using ex assms by (simp add: retryImage_def image_answer_def retryImage_start_def Let_def)
  have g: "story (generateSingleImage cl sceneId (Inr url) c)
        = (story c)\<lparr>sceneImages := js_set (sceneImages (story c)) i url,
                    videos := js_set (videos (story c)) i []\<rparr>"
    using ex assms
    by (simp add: generateSingleImage_def image_answer_def generateSingleImage_start_def Let_def)
  show ?thesis unfolding g r by (simp add: js_get_js_set)
qed

theorem regenerate_image_frame_witness:
  "findIndex (\<lambda>s. scene_id s = ''3'') (local_scenes all_ready_component) = Some 2
   \<and> sceneImages (story (retryImage (local_scenes all_ready_component) ''3'' (Inr ''new.png'')
        all_ready_component))
      = [Some ''i1.png'', Some ''i2.png'', Some ''new.png'', Some ''i4.png'', Some ''i5.png'']
   \<and> videos (story (retryImage (local_scenes all_ready_component) ''3'' (Inr ''new.png'')
        all_ready_component))
      = [Some ''v1.mp4'', Some ''v2.mp4'', Some [], Some ''v4.mp4'', Some ''v5.mp4'']"
proof -
  have h: "findIndex (\<lambda>s. scene_id s = ''3'') (local_scenes all_ready_component) = Some 2"
    by (simp add: example_defs)
  from h regenerate_image_frame[OF h, of "''new.png''" all_ready_component]
  show ?thesis by (simp add: example_defs js_set_def)
qed

section \<open>Properties of the final page\<close>

text \<open>
  Claim C10. A final page that mounts on a story without a final video URL and with a
  non-empty videos array submits the final-video job in its first run of the effect, and
  on no other story; once a run has submitted, no later run of the effect submits again,
  whatever the story has become. The payload has one entry per scene, whose video URL is
  what \<open>videos\<close> holds at the scene's index and whose narration URL is the scene's or the
  empty string. Nothing is checked before submitting: for a story of two scenes with one
  video and one narration, the second entry goes out with an undefined video URL and an
  empty narration URL.
\<close>

theorem final_page_auto_generates:
  "(finalVideoUrl st = [] \<and> videos st \<noteq> [] \<longrightarrow>
      snd (auto_generate_effect st (mount_final_page st)) = Some (final_scenes_payload st))
   \<and> (\<not> (finalVideoUrl st = [] \<and> videos st \<noteq> []) \<longrightarrow>
      snd (auto_generate_effect st (mount_final_page st)) = None)
   \<and> (snd (auto_generate_effect st p) \<noteq> None \<longrightarrow>
        snd (auto_generate_effect st' (fst (auto_generate_effect st p))) = None)
   \<and> length (final_scenes_payload st) = length (scenes st)
   \<and> (\<forall>idx < length (scenes st).
        video_url (final_scenes_payload st ! idx) = js_get (videos st) idx
        \<and> fv_narration_url (final_scenes_payload st ! idx)
            = or_else (narration_url (scenes st ! idx)) [])
   \<and> snd (auto_generate_effect gap_story (mount_final_page gap_story))
       = Some [\<lparr>video_url = Some ''v1.mp4'', fv_narration_url = ''n1.mp3'',
                 subtitle_text = ''Once upon a time'', fv_phonemes = None, duration = 5\<rparr>,
               \<lparr>video_url = None, fv_narration_url = [],
                 subtitle_text = ''Once upon a time'', fv_phonemes = None, duration = 5\<rparr>]"
proof -
  have a: "finalVideoUrl st = [] \<and> videos st \<noteq> [] \<longrightarrow>
      snd (auto_generate_effect st (mount_final_page st)) = Some (final_scenes_payload st)"
    by (simp add: auto_generate_effect_def mount_final_page_def or_null_def truthy_def)
  have b: "\<not> (finalVideoUrl st = [] \<and> videos st \<noteq> []) \<longrightarrow>
      snd (auto_generate_effect st (mount_final_page st)) = None"
    by (auto simp add: auto_generate_effect_def mount_final_page_def or_null_def truthy_def)
  have c: "snd (auto_generate_effect st p) \<noteq> None \<longrightarrow>
        snd (auto_generate_effect st' (fst (auto_generate_effect st p))) = None"
    by (simp add: auto_generate_effect_def)
  have d: "snd (auto_generate_effect gap_story (mount_final_page gap_story))
       = Some [\<lparr>video_url = Some ''v1.mp4'', fv_narration_url = ''n1.mp3'',
                 subtitle_text = ''Once upon a time'', fv_phonemes = None, duration = 5\<rparr>,
               \<lparr>video_url = None, fv_narration_url = [],
                 subtitle_text = ''Once upon a time'', fv_phonemes = None, duration = 5\<rparr>]"
    by (simp add: example_defs auto_generate_effect_def mount_final_page_def or_null_def truthy_def
        final_scenes_payload_def enumerate_eq_zip js_get_def or_else_def upt_rec)
  show ?thesis using a b c d length_final_scenes_payload nth_final_scenes_payload by blast
qed

theorem final_page_auto_generates_witness:
  "finalVideoUrl gap_story = [] \<and> videos gap_story \<noteq> []
   \<and> snd (auto_generate_effect gap_story (mount_final_page gap_story))
       = Some (final_scenes_payload gap_story)
   \<and> video_url (final_scenes_payload gap_story ! 1) = None
   \<and> fv_narration_url (final_scenes_payload gap_story ! 1) = []"
proof -
  have h: "finalVideoUrl gap_story = [] \<and> videos gap_story \<noteq> []"
    by (simp add: example_defs)
  have l: "1 < length (scenes gap_story)" by (simp add: example_defs)
  have v: "js_get (videos gap_story) 1 = None"
    "or_else (narration_url (scenes gap_story ! 1)) [] = []"
    by (simp_all add: example_defs js_get_def or_else_def)
  from h l v final_page_auto_generates[of gap_story "mount_final_page gap_story" gap_story]
  show ?thesis by metis
qed

end
